theory Spec2Isabelle
  imports Complex_Main
begin

section \<open>Python objects and TensorFlow values\<close>

text \<open>
  The class \<open>Categorised\<close> of \<open>scvae/distributions/categorised.py\<close> combines a
  \<open>Categorical\<close> distribution over \<open>N\<close> classes with a base distribution that takes over
  in the last class. The embedding follows the module method by method.

  Conventions of the embedding.
  \<^item> A Python call either raises (\<open>Inl\<close> of a \<open>py_error\<close>) or returns.
  \<^item> In graph mode a method returns a tensor, which is evaluated later. A tensor is
    modelled by the outcome of its evaluation: an \<open>op_error\<close> (a failed assertion, an
    index out of range) or a value. A moment or density query therefore has the type
    \<open>py_error + (op_error + real)\<close>: raising while the graph is built, failing when the
    tensor is evaluated, or yielding a number.
  \<^item> Tensor values are taken per batch element and over the real numbers: one vector of
    logits for the categorical component, one mean, variance and log-density function for
    the base component, with scalar events. Rounding is outside the model. The input of
    \<open>log_prob\<close> is a float where the class index is formed from it (a number, an infinity
    or NaN); the densities are stated for inputs that are numbers.
  \<^item> The batch shapes are kept as data: the runtime shape, and what of it is known
    when the graph is built. The assertions compare them; the arithmetic of the queries is
    that of two components whose batch elements are paired, and the library's
    broadcasting of unequal batch shapes is not modelled.
  \<^item> Python lists that are mutated in place (the \<open>_graph_parents\<close> lists) live in a
    store and objects hold their addresses.
\<close>

datatype op_error = InvalidArgumentError string

text \<open>
  A Python exception: \<open>Raised e\<close> is an op error thrown while the graph is built, as
  \<open>check_ops.assert_equal\<close> does when it can decide its condition at once.
\<close>

datatype py_error = TypeError | ValueError | IndexError | Raised op_error

type_synonym 'a tensor = "op_error + 'a"

text \<open>A static \<open>TensorShape\<close>: unknown rank, or a list of possibly unknown dimensions.\<close>

type_synonym tensor_shape = "nat option list option"

definition ndims :: "tensor_shape \<Rightarrow> nat option" where
  "ndims s = map_option length s"

type_synonym addr = nat

text \<open>The store of Python list objects; a graph parent is named by a string.\<close>

type_synonym heap = "addr \<Rightarrow> string list"

text \<open>
  What the module uses of a \<open>Distribution\<close> instance: \<open>dtype\<close>, the static
  \<open>event_shape\<close>, the batch shape, the attribute \<open>_graph_parents\<close> (the address of a
  list), and \<open>mean()\<close>, \<open>variance()\<close> and \<open>log_prob(value)\<close> for one batch element.
  The batch shape is given by its runtime value together with what is known of it when the
  graph is built: whether the rank is, and which dimensions are (a dimension without a flag
  is unknown). The static \<open>batch_shape\<close> is derived from these, so it never contradicts
  the runtime shape.
\<close>

record distribution =
  dtype :: string
  event_shape :: tensor_shape
  batch_shape_tensor :: "nat list"
  batch_rank_known :: bool
  batch_dims_known :: "bool list"
  graph_parents :: addr
  dist_mean :: real
  dist_variance :: real
  dist_log_prob :: "real \<Rightarrow> real"

text \<open>
  \<open>Categorical\<close> is a subclass of \<open>Distribution\<close>: it adds the logits (of one batch
  element, along the class axis) and whether the size of the class axis is known when the
  graph is built.
\<close>

record categorical = distribution +
  logits :: "real list"
  num_classes_static :: bool

definition batch_shape :: "'a distribution_scheme \<Rightarrow> tensor_shape" where
  "batch_shape d =
     (if batch_rank_known d
      then Some (map (\<lambda>i. if i < length (batch_dims_known d) \<and> batch_dims_known d ! i
                            then Some (batch_shape_tensor d ! i) else None)
                   [0..<length (batch_shape_tensor d)])
      else None)"

text \<open>\<open>TensorShape.is_fully_defined()\<close>.\<close>

definition is_fully_defined :: "tensor_shape \<Rightarrow> bool" where
  "is_fully_defined s = (case s of None \<Rightarrow> False | Some ds \<Rightarrow> list_all (\<lambda>d. d \<noteq> None) ds)"

text \<open>
  The objects a caller may pass to the constructor: \<open>None\<close>, a list, a \<open>Categorical\<close>
  instance, or an instance of another \<open>Distribution\<close> class.
\<close>

datatype pyobj =
    PyNone
  | PyList "pyobj list"
  | PyCategorical categorical
  | PyDistribution distribution

text \<open>Python truth value, as tested by \<open>not dist\<close>.\<close>

fun truthy :: "pyobj \<Rightarrow> bool" where
  "truthy PyNone = False"
| "truthy (PyList xs) = (xs \<noteq> [])"
| "truthy (PyCategorical c) = True"
| "truthy (PyDistribution d) = True"



text \<open>The \<open>Distribution\<close> view of an object; a \<open>Categorical\<close> is seen through its base class.\<close>

fun as_Distribution :: "pyobj \<Rightarrow> distribution option" where
  "as_Distribution (PyCategorical c) = Some (distribution.truncate c)"
| "as_Distribution (PyDistribution d) = Some d"
| "as_Distribution obj = None"

subsection \<open>TensorFlow operations used by the module\<close>

definition softmax :: "real list \<Rightarrow> real list" where
  "softmax xs = map (\<lambda>x. exp x / sum_list (map exp xs)) xs"

definition log_softmax :: "real list \<Rightarrow> real list" where
  "log_softmax xs = map (\<lambda>x. x - ln (sum_list (map exp xs))) xs"

text \<open>
  \<open>array_ops.unstack(value, num, axis=-1)\<close> splits the class axis into \<open>num\<close> tensors and
  rejects a \<open>num\<close> that is not the size of the axis.
\<close>

definition unstack :: "real list \<Rightarrow> int \<Rightarrow> py_error + real list" where
  "unstack xs num = (if int (length xs) = num then Inr xs else Inl ValueError)"

text \<open>\<open>math_ops.add_n\<close> raises \<open>ValueError\<close> on an empty list of inputs.\<close>

definition add_n :: "real list \<Rightarrow> py_error + real" where
  "add_n xs = (if xs = [] then Inl ValueError else Inr (sum_list xs))"

text \<open>
  An element of a float tensor: a number, an infinity or NaN. \<open>minimum\<close> and \<open>maximum\<close>
  against a number keep a NaN in their first argument.
\<close>

datatype tf_float = Finite real | PosInf | NegInf | NaN

fun float_minimum :: "tf_float \<Rightarrow> real \<Rightarrow> tf_float" where
  "float_minimum (Finite t) hi = Finite (min t hi)"
| "float_minimum PosInf hi = Finite hi"
| "float_minimum NegInf hi = NegInf"
| "float_minimum NaN hi = NaN"

fun float_maximum :: "tf_float \<Rightarrow> real \<Rightarrow> tf_float" where
  "float_maximum (Finite t) lo = Finite (max t lo)"
| "float_maximum PosInf lo = PosInf"
| "float_maximum NegInf lo = Finite lo"
| "float_maximum NaN lo = NaN"

text \<open>\<open>clip_ops.clip_by_value(t, lo, hi)\<close> is \<open>maximum(minimum(t, hi), lo)\<close>.\<close>

definition clip_by_value :: "tf_float \<Rightarrow> real \<Rightarrow> real \<Rightarrow> tf_float" where
  "clip_by_value t lo hi = float_maximum (float_minimum t hi) lo"

text \<open>
  \<open>math_ops.cast(t, int32)\<close> truncates a number towards zero; a number outside the range
  of \<open>int32\<close>, an infinity and NaN all give the smallest \<open>int32\<close>, \<open>-2147483648\<close>.
\<close>

fun cast_int32 :: "tf_float \<Rightarrow> int" where
  "cast_int32 (Finite t) =
     (let z = (if 0 \<le> t then \<lfloor>t\<rfloor> else \<lceil>t\<rceil>)
      in if - 2147483648 \<le> z \<and> z \<le> 2147483647 then z else - 2147483648)"
| "cast_int32 PosInf = - 2147483648"
| "cast_int32 NegInf = - 2147483648"
| "cast_int32 NaN = - 2147483648"

text \<open>
  \<open>xs[i]\<close> on a Python list: an index from \<open>-len(xs)\<close> to \<open>-1\<close> is taken from the
  end, and an index outside \<open>-len(xs)..len(xs)-1\<close> raises \<open>IndexError\<close>.
\<close>

definition getitem :: "'a list \<Rightarrow> int \<Rightarrow> py_error + 'a" where
  "getitem xs i =
     (if 0 \<le> i \<and> i < int (length xs) then Inr (xs ! nat i)
      else if - int (length xs) \<le> i \<and> i < 0 then Inr (xs ! nat (int (length xs) + i))
      else Inl IndexError)"

text \<open>\<open>range(n)\<close>.\<close>

definition py_range :: "int \<Rightarrow> int list" where
  "py_range n = [0..n - 1]"

text \<open>A list comprehension \<open>[f(k) for k in ks]\<close> whose body may raise.\<close>

fun comprehension :: "(int \<Rightarrow> py_error + 'a) \<Rightarrow> int list \<Rightarrow> py_error + 'a list" where
  "comprehension f [] = Inr []"
| "comprehension f (k # ks) =
     (case f k of
        Inl e \<Rightarrow> Inl e
      | Inr v \<Rightarrow> (case comprehension f ks of Inl e \<Rightarrow> Inl e | Inr vs \<Rightarrow> Inr (v # vs)))"

text \<open>
  Integer tensors for shapes and ranks. A tensor of the graph is its runtime value together
  with whether \<open>tensor_util.constant_value\<close> resolves it when the graph is built.
  \<open>batch_shape_tensor()\<close> is a constant when the static batch shape is fully defined;
  \<open>array_ops.size\<close> of it, the batch rank, is a constant when the rank is known.
\<close>

datatype int_tensor = Scalar int | Vector "int list"

type_synonym graph_tensor = "int_tensor \<times> bool"

definition batch_shape_tensor_op :: "'a distribution_scheme \<Rightarrow> graph_tensor" where
  "batch_shape_tensor_op d =
     (Vector (map int (batch_shape_tensor d)), is_fully_defined (batch_shape d))"

definition batch_rank_op :: "'a distribution_scheme \<Rightarrow> graph_tensor" where
  "batch_rank_op d = (Scalar (int (length (batch_shape_tensor d))), batch_rank_known d)"

text \<open>
  \<open>check_ops.assert_equal(x, y, message)\<close>. When both operands are constants the check is
  made at once and a failure is raised as \<open>InvalidArgumentError\<close> by the call itself;
  otherwise the call returns an assertion op, which is evaluated only with the tensors
  that depend on it. The constructor compares ranks with ranks and shapes with shapes.
\<close>

datatype assertion = Assert_equal int_tensor int_tensor string

definition assert_equal :: "graph_tensor \<Rightarrow> graph_tensor \<Rightarrow> string \<Rightarrow> py_error + assertion" where
  "assert_equal x y msg =
     (if snd x \<and> snd y \<and> fst x \<noteq> fst y then Inl (Raised (InvalidArgumentError msg))
      else Inr (Assert_equal (fst x) (fst y) msg))"


fun run_assertion :: "assertion \<Rightarrow> op_error option" where
  "run_assertion (Assert_equal x y msg) =
     (if x = y then None else Some (InvalidArgumentError msg))"

text \<open>
  \<open>with ops.control_dependencies(assertions)\<close>: a tensor created in the block is evaluated
  after the assertions, in the order of the list; the first that fails is the outcome.
\<close>

fun control_dependencies :: "assertion list \<Rightarrow> 'a tensor \<Rightarrow> 'a tensor" where
  "control_dependencies [] t = t"
| "control_dependencies (a # as) t =
     (case run_assertion a of Some e \<Rightarrow> Inl e | None \<Rightarrow> control_dependencies as t)"

subsection \<open>The categorical component\<close>

text \<open>
  \<open>cat.event_size\<close> is the size of the class axis of the logits, held in an \<open>int32\<close>
  tensor; \<open>tensor_util.constant_value\<close> resolves it only when it is static, and a static
  size is an \<open>int32\<close> constant, hence below \<open>2^31\<close>.
\<close>

definition Categorical_event_size :: "categorical \<Rightarrow> int" where
  "Categorical_event_size c = int (length (logits c))"

definition constant_value_event_size :: "categorical \<Rightarrow> int option" where
  "constant_value_event_size c =
     (if num_classes_static c \<and> Categorical_event_size c \<le> 2147483647
      then Some (Categorical_event_size c) else None)"

text \<open>
  \<open>Categorical.log_prob(k)\<close> is the log-softmax of the logits at class \<open>k\<close>; a class
  index outside \<open>0..N-1\<close> is rejected when the op runs.
\<close>

definition Categorical_log_prob :: "categorical \<Rightarrow> int \<Rightarrow> real tensor" where
  "Categorical_log_prob c k =
     (if 0 \<le> k \<and> k < Categorical_event_size c
      then Inr (log_softmax (logits c) ! nat k)
      else Inl (InvalidArgumentError ''label value outside the valid range''))"

section \<open>The class Categorised\<close>

record categorised =
  static_cat_event_size :: int
  assertions :: "assertion list"
  cat :: categorical
  dist' :: distribution
  event_size :: int
  static_event_shape :: tensor_shape
  static_batch_shape :: tensor_shape
  self_dtype :: string
  validate_args :: bool
  allow_nan_stats :: bool
  self_graph_parents :: addr
  name :: string

definition check_message :: string where
  "check_message = ''dist batch shape must match cat batch shape''"

text \<open>
  The assertions of \<open>__init__\<close> (the block under \<open>if validate_args\<close>): the rank
  assertion, then the shape assertion. Either may raise at once.
\<close>

definition build_assertions ::
  "bool \<Rightarrow> categorical \<Rightarrow> distribution \<Rightarrow> py_error + assertion list" where
  "build_assertions validate c d =
     (let cat_batch_shape = batch_shape_tensor_op c;
          cat_batch_rank = batch_rank_op c
      in if validate then
           let dist_batch_shape = batch_shape_tensor_op d;
               dist_batch_rank = batch_rank_op d
           in (case assert_equal cat_batch_rank dist_batch_rank check_message of
                 Inl e \<Rightarrow> Inl e
               | Inr rank_assertion \<Rightarrow>
                   (case assert_equal cat_batch_shape dist_batch_shape check_message of
                      Inl e \<Rightarrow> Inl e
                    | Inr shape_assertion \<Rightarrow> Inr ([rank_assertion] @ [shape_assertion])))
         else Inr [])"

text \<open>
  \<open>__init__\<close>. The checks are made in the order of the source: the case distinction on
  \<open>cat_arg\<close> is the test \<open>isinstance(cat, Categorical)\<close>, then come \<open>not dist\<close>, the
  test \<open>isinstance(dist, Distribution)\<close>, the static event rank, the static class count
  and the assertions. Nothing is written to the store before the last check has passed.
  The statement \<open>graph_parents += self._dist._graph_parents\<close> extends the list object of
  the categorical component in place; the new object then shares that list.
\<close>

definition Categorised_init ::
  "pyobj \<Rightarrow> pyobj \<Rightarrow> bool \<Rightarrow> bool \<Rightarrow> string \<Rightarrow> heap \<Rightarrow> py_error + (categorised \<times> heap)" where
  "Categorised_init cat_arg dist_arg validate allow_nan nm h =
     (case cat_arg of
        PyCategorical c \<Rightarrow>
          if \<not> truthy dist_arg then Inl ValueError
          else (case as_Distribution dist_arg of
            None \<Rightarrow> Inl TypeError
          | Some d \<Rightarrow>
              if ndims (event_shape d) = None then Inl ValueError
              else (case constant_value_event_size c of
                None \<Rightarrow> Inl ValueError
              | Some n \<Rightarrow>
                  (case build_assertions validate c d of
                     Inl e \<Rightarrow> Inl e
                   | Inr asserts \<Rightarrow>
                       let gp = graph_parents c;
                           h' = h(gp := h gp @ h (graph_parents d))
                       in Inr (\<lparr> static_cat_event_size = n,
                                 assertions = asserts,
                                 cat = c,
                                 dist' = d,
                                 event_size = n - 1,
                                 static_event_shape = event_shape d,
                                 static_batch_shape = batch_shape c,
                                 self_dtype = dtype d,
                                 validate_args = validate,
                                 allow_nan_stats = allow_nan,
                                 self_graph_parents = gp,
                                 name = nm \<rparr>, h'))))
      | _ \<Rightarrow> Inl TypeError)"

text \<open>\<open>_cat_probs(log_probs)\<close>: the list of the \<open>N\<close> class probabilities (or their logarithms).\<close>

definition Categorised_cat_probs :: "categorised \<Rightarrow> bool \<Rightarrow> py_error + real list" where
  "Categorised_cat_probs self log_probs =
     (let which_softmax = (if log_probs then log_softmax else softmax);
          cat_probs = which_softmax (logits (cat self))
      in unstack cat_probs (static_cat_event_size self))"

text \<open>\<open>_mean\<close>.\<close>

definition Categorised_mean :: "categorised \<Rightarrow> py_error + real tensor" where
  "Categorised_mean self =
     (case Categorised_cat_probs self False of
        Inl e \<Rightarrow> Inl e
      | Inr cat_probs \<Rightarrow>
        (case comprehension
                (\<lambda>k. case getitem cat_probs k of Inl e \<Rightarrow> Inl e | Inr p \<Rightarrow> Inr (real_of_int k * p))
                (py_range (event_size self)) of
           Inl e \<Rightarrow> Inl e
         | Inr cat_means \<Rightarrow>
           (case add_n cat_means of
              Inl e \<Rightarrow> Inl e
            | Inr cat_mean \<Rightarrow>
              (case getitem cat_probs (- 1) of
                 Inl e \<Rightarrow> Inl e
               | Inr p_last \<Rightarrow>
                   let dist_mean' =
                         p_last * (dist_mean (dist' self) + real_of_int (event_size self))
                   in Inr (control_dependencies (assertions self)
                             (Inr (cat_mean + dist_mean')))))))"

text \<open>\<open>_variance\<close>; the mean is obtained by calling \<open>_mean\<close>.\<close>

definition Categorised_variance :: "categorised \<Rightarrow> py_error + real tensor" where
  "Categorised_variance self =
     (case Categorised_cat_probs self False of
        Inl e \<Rightarrow> Inl e
      | Inr cat_probs \<Rightarrow>
        (case comprehension
                (\<lambda>k. case getitem cat_probs k of Inl e \<Rightarrow> Inl e | Inr p \<Rightarrow> Inr (real_of_int (k ^ 2) * p))
                (py_range (event_size self)) of
           Inl e \<Rightarrow> Inl e
         | Inr cat_2nd_moments \<Rightarrow>
           (case add_n cat_2nd_moments of
              Inl e \<Rightarrow> Inl e
            | Inr cat_2nd_moment \<Rightarrow>
              (case getitem cat_probs (- 1) of
                 Inl e \<Rightarrow> Inl e
               | Inr p_last \<Rightarrow>
                   let dist_2nd_moment =
                         p_last * (real_of_int (2 * event_size self) * dist_mean (dist' self)
                                   + dist_variance (dist' self)
                                   + (dist_mean (dist' self))\<^sup>2
                                   + real_of_int ((event_size self) ^ 2))
                   in (case Categorised_mean self of
                         Inl e \<Rightarrow> Inl e
                       | Inr mean_tensor \<Rightarrow>
                           Inr (control_dependencies (assertions self)
                                  (case mean_tensor of
                                     Inl e \<Rightarrow> Inl e
                                   | Inr m \<Rightarrow> Inr (cat_2nd_moment + dist_2nd_moment - m\<^sup>2))))))))"

text \<open>
  \<open>_log_prob\<close>. The class index handed to the categorical component is the clipped input
  cast to \<open>int32\<close>; it is defined for every float. The density is given for an input that
  is a number; \<open>where\<close> selects between two tensors that are both computed.
\<close>

definition log_prob_index :: "categorised \<Rightarrow> tf_float \<Rightarrow> int" where
  "log_prob_index self x =
     cast_int32 (clip_by_value x 0 (real_of_int (event_size self)))"

definition Categorised_log_prob :: "categorised \<Rightarrow> real \<Rightarrow> py_error + real tensor" where
  "Categorised_log_prob self x =
     Inr (control_dependencies (assertions self)
       (case Categorical_log_prob (cat self) (log_prob_index self (Finite x)) of
          Inl e \<Rightarrow> Inl e
        | Inr cat_log_prob \<Rightarrow>
            Inr (if x < real_of_int (event_size self) then cat_log_prob
                 else cat_log_prob
                      + dist_log_prob (dist' self) (x - real_of_int (event_size self)))))"

text \<open>\<open>_prob\<close>: \<open>math_ops.exp\<close> applied to the tensor returned by \<open>_log_prob\<close>.\<close>

definition math_ops_exp :: "real tensor \<Rightarrow> real tensor" where
  "math_ops_exp t = (case t of Inl e \<Rightarrow> Inl e | Inr v \<Rightarrow> Inr (exp v))"

definition Categorised_prob :: "categorised \<Rightarrow> real \<Rightarrow> py_error + real tensor" where
  "Categorised_prob self x =
     (case Categorised_log_prob self x of Inl e \<Rightarrow> Inl e | Inr t \<Rightarrow> Inr (math_ops_exp t))"

subsection \<open>The invariant of a constructed object\<close>

text \<open>
  What \<open>__init__\<close> establishes between the attributes it sets: the stored class count is the
  size of the class axis of the logits, it fits \<open>int32\<close>, and \<open>_event_size\<close> is one less.
\<close>

definition well_built :: "categorised \<Rightarrow> bool" where
  "well_built self \<longleftrightarrow>
     static_cat_event_size self = int (length (logits (cat self)))
     \<and> static_cat_event_size self \<le> 2147483647
     \<and> event_size self = static_cat_event_size self - 1"

section \<open>Example objects\<close>

text \<open>
  A categorical component over three classes with logits \<open>[0, 0, ln 2]\<close>, that is with
  probabilities \<open>[1/4, 1/4, 1/2]\<close>, and a base component that is the point mass at 1
  (mean 1, variance 0, log-density the logarithm of its mass function). Both have the
  batch shape \<open>[3]\<close>, known when the graph is built. The query fields that the categorical
  example inherits from \<open>distribution\<close> are not read when it is passed as \<open>cat\<close>.
\<close>

definition example_heap :: heap where
  "example_heap = (\<lambda>a. [])(0 := [''logits''], 1 := [''loc''])"

definition example_cat :: categorical where
  "example_cat =
     \<lparr> dtype = ''int32'', event_shape = Some [],
       batch_shape_tensor = [3], batch_rank_known = True, batch_dims_known = [True],
       graph_parents = 0,
       dist_mean = 0, dist_variance = 0, dist_log_prob = (\<lambda>y. 0),
       logits = [0, 0, ln 2], num_classes_static = True \<rparr>"

definition point_mass :: distribution where
  "point_mass =
     \<lparr> dtype = ''float32'', event_shape = Some [],
       batch_shape_tensor = [3], batch_rank_known = True, batch_dims_known = [True],
       graph_parents = 1,
       dist_mean = 1, dist_variance = 0,
       dist_log_prob = (\<lambda>y. ln (if y = 1 then 1 else 0)) \<rparr>"

text \<open>The two components combined without validation.\<close>

definition scenario_init :: "py_error + (categorised \<times> heap)" where
  "scenario_init =
     Categorised_init (PyCategorical example_cat) (PyDistribution point_mass)
       False True ''Categorised'' example_heap"

definition scenario_self :: categorised where
  "scenario_self = fst (projr scenario_init)"

definition scenario_heap :: heap where
  "scenario_heap = snd (projr scenario_init)"

text \<open>
  Validation switched on, with batch sizes that are not known when the graph is built (the
  static batch shapes are \<open>[None]\<close>) and that differ when it runs: 3 for the categorical
  component, 4 for the base component.
\<close>

definition dynamic_cat :: categorical where
  "dynamic_cat = example_cat\<lparr>batch_dims_known := [False]\<rparr>"

definition dynamic_base :: distribution where
  "dynamic_base = point_mass\<lparr>batch_shape_tensor := [4], batch_dims_known := [False]\<rparr>"




text \<open>A base component whose batch shape \<open>[4]\<close> is known when the graph is built.\<close>

definition static_base_4 :: distribution where
  "static_base_4 = point_mass\<lparr>batch_shape_tensor := [4]\<rparr>"

text \<open>A categorical component with a single class, without validation.\<close>

definition one_class_init :: "py_error + (categorised \<times> heap)" where
  "one_class_init =
     Categorised_init (PyCategorical (example_cat\<lparr>logits := [0]\<rparr>)) (PyDistribution point_mass)
       False True ''Categorised'' example_heap"

definition one_class_self :: categorised where
  "one_class_self = fst (projr one_class_init)"

definition one_class_heap :: heap where
  "one_class_heap = snd (projr one_class_init)"

section \<open>Auxiliary facts\<close>

subsection \<open>The constructor\<close>

lemma build_assertions_Inr:
  assumes "build_assertions validate c d = Inr asserts"
  shows "asserts =
     (if validate then
        [Assert_equal (Scalar (int (length (batch_shape_tensor c))))
           (Scalar (int (length (batch_shape_tensor d)))) check_message,
         Assert_equal (Vector (map int (batch_shape_tensor c)))
           (Vector (map int (batch_shape_tensor d))) check_message]
      else [])"
  using assms
  by (auto simp: build_assertions_def assert_equal_def batch_rank_op_def
      batch_shape_tensor_op_def Let_def split: if_splits)

lemma init_InrD:
  assumes "Categorised_init cat_arg dist_arg validate allow_nan nm h = Inr (self, h')"
  obtains c d where "cat_arg = PyCategorical c" "truthy dist_arg"
    "as_Distribution dist_arg = Some d"
    "ndims (event_shape d) \<noteq> None" "num_classes_static c"
    "int (length (logits c)) \<le> 2147483647"
    "self = \<lparr> static_cat_event_size = int (length (logits c)),
              assertions = (if validate then
                  [Assert_equal (Scalar (int (length (batch_shape_tensor c))))
                     (Scalar (int (length (batch_shape_tensor d)))) check_message,
                   Assert_equal (Vector (map int (batch_shape_tensor c)))
                     (Vector (map int (batch_shape_tensor d))) check_message]
                 else []),
              cat = c, dist' = d, event_size = int (length (logits c)) - 1,
              static_event_shape = event_shape d, static_batch_shape = batch_shape c,
              self_dtype = dtype d, validate_args = validate, allow_nan_stats = allow_nan,
              self_graph_parents = graph_parents c, name = nm \<rparr>"
    "h' = h(graph_parents c := h (graph_parents c) @ h (graph_parents d))"
proof -
  from assms obtain c where c: "cat_arg = PyCategorical c"
    by (cases cat_arg) (simp_all add: Categorised_init_def)
  from assms c have t: "truthy dist_arg"
    by (auto simp: Categorised_init_def split: if_splits)
  from assms c t obtain d where d: "as_Distribution dist_arg = Some d"
    by (cases "as_Distribution dist_arg") (simp_all add: Categorised_init_def)
  from assms c t d have r: "ndims (event_shape d) \<noteq> None"
    by (auto simp: Categorised_init_def split: if_splits)
  from assms c t d r obtain n where n: "constant_value_event_size c = Some n"
    by (cases "constant_value_event_size c") (auto simp: Categorised_init_def)
  then have n': "num_classes_static c" "int (length (logits c)) \<le> 2147483647"
    "n = int (length (logits c))"
    by (auto simp: constant_value_event_size_def Categorical_event_size_def split: if_splits)
  from assms c t d r n obtain asserts where a: "build_assertions validate c d = Inr asserts"
    by (cases "build_assertions validate c d") (auto simp: Categorised_init_def)
  from assms c t d r n a have
    "self = \<lparr> static_cat_event_size = n, assertions = asserts,
              cat = c, dist' = d, event_size = n - 1,
              static_event_shape = event_shape d, static_batch_shape = batch_shape c,
              self_dtype = dtype d, validate_args = validate, allow_nan_stats = allow_nan,
              self_graph_parents = graph_parents c, name = nm \<rparr>"
    "h' = h(graph_parents c := h (graph_parents c) @ h (graph_parents d))"
    by (auto simp: Categorised_init_def Let_def)
  with that[OF c t d r n'(1,2)] n'(3) build_assertions_Inr[OF a] show ?thesis
    by simp
qed

lemma init_well_built:
  "Categorised_init cat_arg dist_arg validate allow_nan nm h = Inr (self, h') \<Longrightarrow> well_built self"
  by (erule init_InrD) (simp add: well_built_def)

lemma init_assertions:
  assumes "Categorised_init cat_arg dist_arg validate allow_nan nm h = Inr (self, h')"
  shows "assertions self =
     (if validate then
        [Assert_equal (Scalar (int (length (batch_shape_tensor (cat self)))))
           (Scalar (int (length (batch_shape_tensor (dist' self))))) check_message,
         Assert_equal (Vector (map int (batch_shape_tensor (cat self))))
           (Vector (map int (batch_shape_tensor (dist' self)))) check_message]
      else [])"
  using assms by (rule init_InrD) simp



text \<open>What decides the assertions when the graph is built.\<close>

lemma build_assertions_cases:
  "build_assertions validate c d = Inl e \<longleftrightarrow>
     e = Raised (InvalidArgumentError check_message) \<and> validate
     \<and> (batch_rank_known c \<and> batch_rank_known d
           \<and> length (batch_shape_tensor c) \<noteq> length (batch_shape_tensor d)
        \<or> is_fully_defined (batch_shape c) \<and> is_fully_defined (batch_shape d)
           \<and> batch_shape_tensor c \<noteq> batch_shape_tensor d)"
  by (auto simp: build_assertions_def assert_equal_def batch_rank_op_def
      batch_shape_tensor_op_def Let_def inj_map_eq_map[OF inj_of_nat])

subsection \<open>Lists\<close>

lemma getitem_nonneg: "0 \<le> k \<Longrightarrow> k < int (length xs) \<Longrightarrow> getitem xs k = Inr (xs ! nat k)"
  by (simp add: getitem_def)

lemma getitem_last:
  assumes "xs \<noteq> []"
  shows "getitem xs (- 1) = Inr (xs ! (length xs - 1))"
proof -
  from assms have len: "1 \<le> length xs" by (cases xs) simp_all
  then have "nat (int (length xs) + - 1) = length xs - 1" by linarith
  with len show ?thesis by (simp add: getitem_def)
qed

lemma comprehension_total:
  "(\<And>k. k \<in> set ks \<Longrightarrow> f k = Inr (g k)) \<Longrightarrow> comprehension f ks = Inr (map g ks)"
  by (induction ks) auto

lemma sum_list_upto: "sum_list (map f [0..n - 1]) = (\<Sum>k = 0..n - 1. f k)"
  by (simp add: sum_list_distinct_conv_sum_set)

subsection \<open>Softmax\<close>

lemma length_softmax: "length (softmax xs) = length xs"
  by (simp add: softmax_def)

lemma sum_exp_pos: "xs \<noteq> [] \<Longrightarrow> 0 < sum_list (map exp (xs :: real list))"
proof (induction xs)
  case Nil
  then show ?case by simp
next
  case (Cons x xs)
  have "0 \<le> sum_list (map exp xs)" by (rule sum_list_nonneg) auto
  moreover have "0 < exp x" by simp
  ultimately have "0 < exp x + sum_list (map exp xs)" by (rule add_pos_nonneg[rotated])
  then show ?case by simp
qed

lemma log_softmax_nth:
  assumes "k < length xs"
  shows "log_softmax xs ! k = ln (softmax xs ! k)"
proof -
  from assms have "xs \<noteq> []" by auto
  then have "0 < sum_list (map exp xs)" by (rule sum_exp_pos)
  then show ?thesis using assms
    by (simp add: log_softmax_def softmax_def ln_div)
qed

lemma softmax_example: "softmax [0, 0, ln 2] = [1 / 4, 1 / 4, 1 / 2]"
  by (simp add: softmax_def)

lemma softmax_single: "softmax [0] = [1]"
  by (simp add: softmax_def)

subsection \<open>The moments\<close>

lemma cat_probs_eq:
  "well_built self \<Longrightarrow> Categorised_cat_probs self False = Inr (softmax (logits (cat self)))"
  by (simp add: Categorised_cat_probs_def unstack_def well_built_def Let_def softmax_def)

lemma class_terms:
  assumes "well_built self"
  shows "comprehension
           (\<lambda>k. case getitem (softmax (logits (cat self))) k of
                  Inl e \<Rightarrow> Inl e | Inr p \<Rightarrow> Inr (w k * p))
           (py_range (event_size self))
         = Inr (map (\<lambda>k. w k * softmax (logits (cat self)) ! nat k) (py_range (event_size self)))"
proof (rule comprehension_total)
  fix k assume "k \<in> set (py_range (event_size self))"
  then have "0 \<le> k" "k < int (length (softmax (logits (cat self))))"
    using assms by (auto simp: py_range_def well_built_def length_softmax)
  then show "(case getitem (softmax (logits (cat self))) k of
                Inl e \<Rightarrow> Inl e | Inr p \<Rightarrow> Inr (w k * p))
      = Inr (w k * softmax (logits (cat self)) ! nat k)"
    by (simp add: getitem_nonneg)
qed

lemma last_prob:
  assumes "well_built self" "1 \<le> static_cat_event_size self"
  shows "getitem (softmax (logits (cat self))) (- 1)
         = Inr (softmax (logits (cat self)) ! nat (event_size self))"
proof -
  have ne: "softmax (logits (cat self)) \<noteq> []"
    using assms by (auto simp: well_built_def softmax_def)
  have "length (softmax (logits (cat self))) - 1 = nat (event_size self)"
    using assms by (simp add: well_built_def length_softmax)
  with getitem_last[OF ne] show ?thesis by simp
qed

lemma mean_eq:
  assumes wb: "well_built self" and N: "2 \<le> static_cat_event_size self"
  shows "Categorised_mean self =
     Inr (control_dependencies (assertions self)
       (Inr ((\<Sum>k = 0..event_size self - 1. real_of_int k * softmax (logits (cat self)) ! nat k)
             + softmax (logits (cat self)) ! nat (event_size self)
               * (dist_mean (dist' self) + real_of_int (event_size self)))))"
proof -
  have ne: "py_range (event_size self) \<noteq> []"
    using wb N by (simp add: py_range_def well_built_def upto.simps)
  have N1: "1 \<le> static_cat_event_size self" using N by simp
  show ?thesis
    unfolding Categorised_mean_def
    by (simp add: cat_probs_eq[OF wb] class_terms[OF wb] last_prob[OF wb N1] add_n_def ne Let_def)
       (simp add: py_range_def sum_list_upto)
qed

lemma mean_raises:
  assumes wb: "well_built self" and N: "static_cat_event_size self \<le> 1"
  shows "Categorised_mean self = Inl ValueError"
proof -
  have e: "py_range (event_size self) = []"
    using wb N by (simp add: py_range_def well_built_def)
  show ?thesis
    unfolding Categorised_mean_def
    by (simp add: cat_probs_eq[OF wb] e add_n_def)
qed

lemma variance_eq:
  assumes wb: "well_built self" and N: "2 \<le> static_cat_event_size self"
  shows "Categorised_variance self =
     Inr (control_dependencies (assertions self)
       (case control_dependencies (assertions self)
          (Inr ((\<Sum>k = 0..event_size self - 1.
                    real_of_int k * softmax (logits (cat self)) ! nat k)
             + softmax (logits (cat self)) ! nat (event_size self)
               * (dist_mean (dist' self) + real_of_int (event_size self)))) of
          Inl e \<Rightarrow> Inl e
        | Inr m \<Rightarrow>
            Inr ((\<Sum>k = 0..event_size self - 1.
                     real_of_int (k\<^sup>2) * softmax (logits (cat self)) ! nat k)
                 + softmax (logits (cat self)) ! nat (event_size self)
                   * (real_of_int (2 * event_size self) * dist_mean (dist' self)
                      + dist_variance (dist' self)
                      + (dist_mean (dist' self))\<^sup>2
                      + real_of_int ((event_size self)\<^sup>2))
                 - m\<^sup>2)))"
proof -
  have ne: "py_range (event_size self) \<noteq> []"
    using wb N by (simp add: py_range_def well_built_def upto.simps)
  have N1: "1 \<le> static_cat_event_size self" using N by simp
  show ?thesis
    unfolding Categorised_variance_def
    by (simp add: cat_probs_eq[OF wb] class_terms[OF wb] last_prob[OF wb N1] add_n_def ne Let_def
          mean_eq[OF wb N] del: of_int_power of_int_mult)
       (simp add: py_range_def sum_list_upto del: of_int_power of_int_mult cong: sum.case_cong)
qed

lemma variance_raises:
  assumes wb: "well_built self" and N: "static_cat_event_size self \<le> 1"
  shows "Categorised_variance self = Inl ValueError"
proof -
  have e: "py_range (event_size self) = []"
    using wb N by (simp add: py_range_def well_built_def)
  show ?thesis
    unfolding Categorised_variance_def
    by (simp add: cat_probs_eq[OF wb] e add_n_def)
qed

subsection \<open>The class index of the log-density\<close>

lemma event_size_nonneg:
  "well_built self \<Longrightarrow> 1 \<le> static_cat_event_size self \<Longrightarrow> 0 \<le> event_size self"
  unfolding well_built_def by linarith

lemma event_size_int32:
  "well_built self \<Longrightarrow> event_size self \<le> 2147483646"
  unfolding well_built_def by linarith

lemma cast_int32_floor:
  assumes "0 \<le> t" "\<lfloor>t\<rfloor> \<le> 2147483647"
  shows "cast_int32 (Finite t) = \<lfloor>t\<rfloor>"
proof -
  from assms(1) have "0 \<le> \<lfloor>t\<rfloor>" by simp
  with assms(2) have r: "- 2147483648 \<le> \<lfloor>t\<rfloor> \<and> \<lfloor>t\<rfloor> \<le> 2147483647" by linarith
  show ?thesis
    by (simp only: cast_int32.simps Let_def assms(1) r if_True) simp
qed

lemma index_finite:
  assumes "0 \<le> K" "K \<le> 2147483646"
  shows "cast_int32 (clip_by_value (Finite x) 0 (real_of_int K))
         = \<lfloor>max 0 (min x (real_of_int K))\<rfloor>"
proof -
  let ?c = "max (min x (real_of_int K)) 0"
  have nn: "0 \<le> ?c" by simp
  have "?c \<le> real_of_int K" using assms(1) by simp
  then have "\<lfloor>?c\<rfloor> \<le> K" by (simp add: floor_le_iff)
  with assms(2) have le: "\<lfloor>?c\<rfloor> \<le> 2147483647" by linarith
  have "clip_by_value (Finite x) 0 (real_of_int K) = Finite ?c"
    by (simp add: clip_by_value_def)
  with cast_int32_floor[OF nn le] show ?thesis by (simp add: max.commute)
qed

lemma index_bounds:
  assumes "0 \<le> K" "K \<le> 2147483646" "x \<noteq> NaN"
  shows "0 \<le> cast_int32 (clip_by_value x 0 (real_of_int K))
     \<and> cast_int32 (clip_by_value x 0 (real_of_int K)) \<le> K"
proof (cases x)
  case (Finite t)
  have "0 \<le> \<lfloor>max 0 (min t (real_of_int K))\<rfloor>" by simp
  moreover have "max 0 (min t (real_of_int K)) \<le> real_of_int K" using assms(1) by simp
  then have "\<lfloor>max 0 (min t (real_of_int K))\<rfloor> \<le> K" by (simp add: floor_le_iff)
  ultimately show ?thesis
    unfolding Finite index_finite[OF assms(1,2)] by simp
next
  case PosInf
  with assms(1,2) show ?thesis by (simp add: clip_by_value_def max_def)
next
  case NegInf
  with assms(1,2) show ?thesis by (simp add: clip_by_value_def)
next
  case NaN
  with assms(3) show ?thesis by simp
qed

lemma index_cases:
  assumes "0 \<le> K" "K \<le> 2147483646"
  shows "x < real_of_int K \<Longrightarrow>
           cast_int32 (clip_by_value (Finite x) 0 (real_of_int K)) = \<lfloor>max 0 x\<rfloor>"
    and "real_of_int K \<le> x \<Longrightarrow> cast_int32 (clip_by_value (Finite x) 0 (real_of_int K)) = K"
  using assms(1) by (simp_all add: index_finite[OF assms] min_def max_def)

lemma cat_log_prob_index:
  assumes wb: "well_built self" and N: "1 \<le> static_cat_event_size self" and x: "x \<noteq> NaN"
  shows "Categorical_log_prob (cat self) (log_prob_index self x)
         = Inr (ln (softmax (logits (cat self)) ! nat (log_prob_index self x)))"
proof -
  have K: "0 \<le> event_size self" using wb N by (rule event_size_nonneg)
  have "0 \<le> log_prob_index self x \<and> log_prob_index self x \<le> event_size self"
    unfolding log_prob_index_def using K event_size_int32[OF wb] x by (rule index_bounds)
  then have "0 \<le> log_prob_index self x"
    "log_prob_index self x < Categorical_event_size (cat self)"
    using wb by (simp_all add: well_built_def Categorical_event_size_def)
  then show ?thesis
    by (simp add: Categorical_log_prob_def log_softmax_nth Categorical_event_size_def)
qed

lemma log_prob_eq:
  assumes wb: "well_built self" and N: "1 \<le> static_cat_event_size self"
  shows "Categorised_log_prob self x =
     Inr (control_dependencies (assertions self)
       (Inr (if x < real_of_int (event_size self)
             then ln (softmax (logits (cat self)) ! nat \<lfloor>max 0 x\<rfloor>)
             else ln (softmax (logits (cat self)) ! nat (event_size self))
                  + dist_log_prob (dist' self) (x - real_of_int (event_size self)))))"
proof -
  have K: "0 \<le> event_size self" using wb N by (rule event_size_nonneg)
  note K' = event_size_int32[OF wb]
  have fin: "Finite x \<noteq> NaN" by simp
  show ?thesis
  proof (cases "x < real_of_int (event_size self)")
    case True
    then have "log_prob_index self (Finite x) = \<lfloor>max 0 x\<rfloor>"
      unfolding log_prob_index_def by (rule index_cases(1)[OF K K'])
    with True cat_log_prob_index[OF wb N fin] show ?thesis
      by (simp add: Categorised_log_prob_def)
  next
    case False
    then have "log_prob_index self (Finite x) = event_size self"
      unfolding log_prob_index_def using index_cases(2)[OF K K', of x] by simp
    with False cat_log_prob_index[OF wb N fin] show ?thesis
      by (simp add: Categorised_log_prob_def)
  qed
qed

subsection \<open>The example objects\<close>

lemmas example_defs =
  Categorised_init_def build_assertions_def assert_equal_def batch_rank_op_def
  batch_shape_tensor_op_def batch_shape_def is_fully_defined_def
  example_cat_def point_mass_def dynamic_cat_def dynamic_base_def static_base_4_def
  ndims_def constant_value_event_size_def Categorical_event_size_def Let_def

lemma scenario_init_eq: "scenario_init = Inr (scenario_self, scenario_heap)"
  by (simp add: scenario_self_def scenario_heap_def scenario_init_def example_defs)

lemma scenario_fields:
  "static_cat_event_size scenario_self = 3" "event_size scenario_self = 2"
  "assertions scenario_self = []" "cat scenario_self = example_cat"
  "dist' scenario_self = point_mass"
  by (simp_all add: scenario_self_def scenario_init_def example_defs)




lemma one_class_init_eq: "one_class_init = Inr (one_class_self, one_class_heap)"
  by (simp add: one_class_self_def one_class_heap_def one_class_init_def example_defs)

lemma one_class_fields:
  "static_cat_event_size one_class_self = 1" "event_size one_class_self = 0"
  "assertions one_class_self = []" "cat one_class_self = example_cat\<lparr>logits := [0]\<rparr>"
  "dist' one_class_self = point_mass"
  by (simp_all add: one_class_self_def one_class_init_def example_defs)


subsection \<open>The moments from two classes on\<close>



lemma variance_from_two_classes:
  assumes "Categorised_init cat_arg dist_arg validate allow_nan nm h = Inr (self, h')"
    and "2 \<le> static_cat_event_size self"
  shows "\<exists>mean_tensor. Categorised_mean self = Inr mean_tensor
     \<and> Categorised_variance self =
         Inr (control_dependencies (assertions self)
           (case mean_tensor of
              Inl e \<Rightarrow> Inl e
            | Inr m \<Rightarrow>
                Inr ((\<Sum>k = 0..event_size self - 1.
                         real_of_int (k\<^sup>2) * softmax (logits (cat self)) ! nat k)
                     + softmax (logits (cat self)) ! nat (event_size self)
                       * (real_of_int (2 * event_size self) * dist_mean (dist' self)
                          + dist_variance (dist' self)
                          + (dist_mean (dist' self))\<^sup>2
                          + real_of_int ((event_size self)\<^sup>2))
                     - m\<^sup>2)))"
proof -
  have wb: "well_built self" using assms(1) by (rule init_well_built)
  show ?thesis
    using mean_eq[OF wb assms(2)] variance_eq[OF wb assms(2)] by simp
qed


section \<open>The claims\<close>

text \<open>
  C1: for an object built by the constructor over at least one class and for every input
  \<open>x\<close> that is a number, \<open>log_prob(x)\<close> clamps \<open>x\<close> to the range from 0 to
  \<open>event_size\<close>, scores the integer part of the clamped value under the categorical
  component, and its tensor evaluates (after the deferred assertions) to that categorical
  log-probability when \<open>x < event_size\<close>, and to the log-probability of class
  \<open>event_size\<close> plus the base log-density at \<open>x - event_size\<close> otherwise; at
  \<open>x = event_size\<close> this is \<open>ln (P(class = event_size)) + base.log_prob(0)\<close>.
\<close>

theorem log_prob_formula:
  assumes "Categorised_init cat_arg dist_arg validate allow_nan nm h = Inr (self, h')"
    and "1 \<le> static_cat_event_size self"
  shows "log_prob_index self (Finite x) = \<lfloor>max 0 (min x (real_of_int (event_size self)))\<rfloor>
     \<and> Categorical_log_prob (cat self) (log_prob_index self (Finite x))
         = Inr (ln (softmax (logits (cat self)) ! nat (log_prob_index self (Finite x))))
     \<and> Categorised_log_prob self x =
         Inr (control_dependencies (assertions self)
           (Inr (if x < real_of_int (event_size self)
                 then ln (softmax (logits (cat self)) ! nat \<lfloor>max 0 x\<rfloor>)
                 else ln (softmax (logits (cat self)) ! nat (event_size self))
                      + dist_log_prob (dist' self) (x - real_of_int (event_size self)))))
     \<and> Categorised_log_prob self (real_of_int (event_size self)) =
         Inr (control_dependencies (assertions self)
           (Inr (ln (softmax (logits (cat self)) ! nat (event_size self))
                 + dist_log_prob (dist' self) 0)))"
proof -
  have wb: "well_built self" using assms(1) by (rule init_well_built)
  have K: "0 \<le> event_size self" using wb assms(2) by (rule event_size_nonneg)
  have fin: "Finite x \<noteq> NaN" by simp
  have "log_prob_index self (Finite x) = \<lfloor>max 0 (min x (real_of_int (event_size self)))\<rfloor>"
    unfolding log_prob_index_def by (rule index_finite[OF K event_size_int32[OF wb]])
  moreover note cat_log_prob_index[OF wb assms(2) fin] log_prob_eq[OF wb assms(2), of x]
  moreover have "Categorised_log_prob self (real_of_int (event_size self)) =
         Inr (control_dependencies (assertions self)
           (Inr (ln (softmax (logits (cat self)) ! nat (event_size self))
                 + dist_log_prob (dist' self) 0)))"
    using log_prob_eq[OF wb assms(2), of "real_of_int (event_size self)"] by simp
  ultimately show ?thesis by blast
qed

theorem log_prob_formula_witness:
  "scenario_init = Inr (scenario_self, scenario_heap)
   \<and> 1 \<le> static_cat_event_size scenario_self
   \<and> Categorised_log_prob scenario_self 1 = Inr (Inr (ln (1 / 4)))
   \<and> Categorised_log_prob scenario_self 3 = Inr (Inr (ln (1 / 2)))
   \<and> Categorised_log_prob scenario_self (- 5) = Inr (Inr (ln (1 / 4)))"
  using log_prob_formula[OF scenario_init_eq[unfolded scenario_init_def], of 1]
    log_prob_formula[OF scenario_init_eq[unfolded scenario_init_def], of 3]
    log_prob_formula[OF scenario_init_eq[unfolded scenario_init_def], of "- 5"]
  by (simp add: scenario_fields scenario_init_eq softmax_example example_cat_def point_mass_def)

text \<open>
  C2: the claim gives \<open>mean()\<close> the value
  \<open>sum_{k=0}^{event_size-1} k * P(class=k) + P(class=event_size) * (mean(base) + event_size)\<close>
  on every constructed object. On the object built from a categorical component with one
  class (probability 1) and the point mass at 1 the formula gives \<open>1 * (1 + 0) = 1\<close>,
  and \<open>_mean\<close> raises \<open>ValueError\<close>: the list of class terms handed to \<open>add_n\<close> is
  empty. From two classes on the value is the one of the claim
  (\<open>mean_from_two_classes\<close>, \<open>mean_scenario_value\<close>).
\<close>

theorem mean_single_class_raises:
  "Categorised_init (PyCategorical (example_cat\<lparr>logits := [0]\<rparr>)) (PyDistribution point_mass)
       False True ''Categorised'' example_heap = Inr (one_class_self, one_class_heap)
   \<and> static_cat_event_size one_class_self = 1
   \<and> event_size one_class_self = 0
   \<and> softmax (logits (cat one_class_self)) = [1]
   \<and> dist_mean (dist' one_class_self) = 1
   \<and> Categorised_mean one_class_self = Inl ValueError"
proof -
  have wb: "well_built one_class_self"
    using one_class_init_eq[unfolded one_class_init_def] by (rule init_well_built)
  have "Categorised_mean one_class_self = Inl ValueError"
    using wb by (rule mean_raises) (simp add: one_class_fields)
  then show ?thesis
    using one_class_init_eq[unfolded one_class_init_def]
    by (simp add: one_class_fields softmax_single example_cat_def point_mass_def)
qed

text \<open>
  C3: the claim gives \<open>variance()\<close> the second moment minus the square of the mean on
  every constructed object. On the object built from a categorical component with one class
  and the point mass at 1 the formula gives \<open>1 * (0 + 0 + 1 + 0) - 1 = 0\<close>, and
  \<open>_variance\<close> raises \<open>ValueError\<close>: the list of second-moment terms handed to \<open>add_n\<close>
  is empty. From two classes on the value is the one of the claim
  (\<open>variance_from_two_classes\<close>, \<open>variance_scenario_value\<close>).
\<close>

theorem variance_single_class_raises:
  "Categorised_init (PyCategorical (example_cat\<lparr>logits := [0]\<rparr>)) (PyDistribution point_mass)
       False True ''Categorised'' example_heap = Inr (one_class_self, one_class_heap)
   \<and> static_cat_event_size one_class_self = 1
   \<and> event_size one_class_self = 0
   \<and> softmax (logits (cat one_class_self)) = [1]
   \<and> dist_mean (dist' one_class_self) = 1 \<and> dist_variance (dist' one_class_self) = 0
   \<and> Categorised_variance one_class_self = Inl ValueError"
proof -
  have wb: "well_built one_class_self"
    using one_class_init_eq[unfolded one_class_init_def] by (rule init_well_built)
  have "Categorised_variance one_class_self = Inl ValueError"
    using wb by (rule variance_raises) (simp add: one_class_fields)
  then show ?thesis
    using one_class_init_eq[unfolded one_class_init_def]
    by (simp add: one_class_fields softmax_single example_cat_def point_mass_def)
qed







text \<open>
  C6: for every input \<open>x\<close>, \<open>prob(x)\<close> is the exponential applied to the outcome of
  \<open>log_prob(x)\<close>: the same failures, and the exponential of the same value.
\<close>

theorem prob_is_exp_log_prob:
  "Categorised_prob self x = map_sum id (map_sum id exp) (Categorised_log_prob self x)"
  by (simp add: Categorised_prob_def Categorised_log_prob_def math_ops_exp_def
      split: sum.splits)

theorem prob_is_exp_log_prob_witness:
  "Categorised_log_prob scenario_self 1 = Inr (Inr (ln (1 / 4)))
   \<and> Categorised_prob scenario_self 1 = Inr (Inr (1 / 4))"
proof -
  have wb: "well_built scenario_self"
    using scenario_init_eq[unfolded scenario_init_def] by (rule init_well_built)
  have lp: "Categorised_log_prob scenario_self 1 = Inr (Inr (ln (1 / 4)))"
    using log_prob_eq[OF wb, of 1]
    by (simp add: scenario_fields softmax_example example_cat_def)
  with prob_is_exp_log_prob[of scenario_self 1] show ?thesis by simp
qed

text \<open>
  C7: after a successful construction from a categorical component with \<open>N\<close> classes the
  stored class count is \<open>N\<close> and the property \<open>event_size\<close> is \<open>N - 1\<close>. The object is a
  value of the record type: no method of the class assigns to an attribute, so every query
  is a function of the object as built and there is no later state in which \<open>event_size\<close>
  differs.
\<close>

theorem event_size_is_class_count_minus_one:
  assumes "Categorised_init (PyCategorical c) dist_arg validate allow_nan nm h = Inr (self, h')"
  shows "static_cat_event_size self = Categorical_event_size c
     \<and> event_size self = Categorical_event_size c - 1"
  using assms by (rule init_InrD) (simp add: Categorical_event_size_def)

theorem event_size_is_class_count_minus_one_witness:
  "Categorised_init (PyCategorical example_cat) (PyDistribution point_mass)
      False True ''Categorised'' example_heap = Inr (scenario_self, scenario_heap)
   \<and> Categorical_event_size example_cat = 3 \<and> event_size scenario_self = 2"
  using event_size_is_class_count_minus_one[OF scenario_init_eq[unfolded scenario_init_def]]
    scenario_init_eq[unfolded scenario_init_def]
  by (simp add: Categorical_event_size_def example_cat_def)

text \<open>
  C8: for an object built by the constructor over at least one class and for every float
  input \<open>x\<close> other than NaN, however large or negative and the infinities included, the
  class index that \<open>log_prob(x)\<close> hands to the categorical component lies between 0 and
  \<open>event_size\<close>; it is a valid class and the categorical component accepts it, so that on
  a number the evaluation of \<open>log_prob\<close> never ends in the out-of-range failure. At NaN
  the clip keeps the NaN and the cast gives \<open>-2147483648\<close>, which the categorical
  component rejects.
\<close>

theorem log_prob_index_in_range:
  assumes "Categorised_init cat_arg dist_arg validate allow_nan nm h = Inr (self, h')"
    and "1 \<le> static_cat_event_size self"
    and "x \<noteq> NaN"
  shows "0 \<le> log_prob_index self x \<and> log_prob_index self x \<le> event_size self
     \<and> log_prob_index self x < Categorical_event_size (cat self)
     \<and> (\<exists>v. Categorical_log_prob (cat self) (log_prob_index self x) = Inr v)
     \<and> Categorised_log_prob self r
         \<noteq> Inr (Inl (InvalidArgumentError ''label value outside the valid range''))"
proof -
  have wb: "well_built self" using assms(1) by (rule init_well_built)
  have K: "0 \<le> event_size self" using wb assms(2) by (rule event_size_nonneg)
  have b: "0 \<le> log_prob_index self x \<and> log_prob_index self x \<le> event_size self"
    unfolding log_prob_index_def using K event_size_int32[OF wb] assms(3) by (rule index_bounds)
  then have lt: "log_prob_index self x < Categorical_event_size (cat self)"
    using wb by (simp add: well_built_def Categorical_event_size_def)
  have ok: "\<exists>v. Categorical_log_prob (cat self) (log_prob_index self x) = Inr v"
    using b lt by (simp add: Categorical_log_prob_def)
  have fin: "Finite r \<noteq> NaN" by simp
  have okr: "\<exists>v. Categorical_log_prob (cat self) (log_prob_index self (Finite r)) = Inr v"
    using cat_log_prob_index[OF wb assms(2) fin] by simp
  have msg: "control_dependencies (assertions self) (Inr v)
      \<noteq> Inl (InvalidArgumentError ''label value outside the valid range'')" for v :: real
    using init_assertions[OF assms(1)] by (simp add: check_message_def)
  from okr msg have "Categorised_log_prob self r
         \<noteq> Inr (Inl (InvalidArgumentError ''label value outside the valid range''))"
    by (auto simp: Categorised_log_prob_def)
  with b lt ok show ?thesis by blast
qed

theorem log_prob_index_in_range_witness:
  "scenario_init = Inr (scenario_self, scenario_heap)
   \<and> 1 \<le> static_cat_event_size scenario_self
   \<and> Finite 1000000 \<noteq> NaN \<and> PosInf \<noteq> NaN \<and> NegInf \<noteq> NaN
   \<and> event_size scenario_self = 2
   \<and> log_prob_index scenario_self (Finite 1000000) = 2
   \<and> log_prob_index scenario_self (Finite (- 7)) = 0
   \<and> log_prob_index scenario_self (Finite (3 / 2)) = 1
   \<and> log_prob_index scenario_self PosInf = 2
   \<and> log_prob_index scenario_self NegInf = 0
   \<and> 0 \<le> log_prob_index scenario_self (Finite 1000000)
   \<and> log_prob_index scenario_self (Finite 1000000) \<le> event_size scenario_self"
  using log_prob_index_in_range[OF scenario_init_eq[unfolded scenario_init_def],
      of "Finite 1000000" 1]
  by (simp add: scenario_fields scenario_init_eq log_prob_index_def clip_by_value_def)

theorem log_prob_index_in_range_counterexample:
  "scenario_init = Inr (scenario_self, scenario_heap)
   \<and> event_size scenario_self = 2
   \<and> clip_by_value NaN 0 2 = NaN
   \<and> log_prob_index scenario_self NaN = - 2147483648
   \<and> \<not> (0 \<le> log_prob_index scenario_self NaN)
   \<and> Categorical_log_prob (cat scenario_self) (log_prob_index scenario_self NaN)
       = Inl (InvalidArgumentError ''label value outside the valid range'')"
  by (simp add: scenario_init_eq scenario_fields log_prob_index_def clip_by_value_def
      Categorical_log_prob_def)

text \<open>
  C9: with a categorical component of exactly one class the construction succeeds with
  \<open>event_size = 0\<close> (validation off, or the batch shapes equal), and every call of
  \<open>mean()\<close> or \<open>variance()\<close> on the object raises \<open>ValueError\<close>, since the list of class
  terms handed to \<open>add_n\<close> is empty. From two classes on both calls return a tensor, which
  yields a value when no assertion is pending.
\<close>

theorem moments_need_two_classes:
  "(\<forall>self h'. Categorised_init cat_arg dist_arg validate allow_nan nm h = Inr (self, h')
        \<and> static_cat_event_size self = 1 \<longrightarrow>
        Categorised_mean self = Inl ValueError \<and> Categorised_variance self = Inl ValueError)
   \<and> (num_classes_static c \<and> ndims (event_shape d) \<noteq> None \<and> length (logits c) = 1
        \<and> (validate \<longrightarrow> batch_shape_tensor c = batch_shape_tensor d) \<longrightarrow>
        (\<exists>self h'. Categorised_init (PyCategorical c) (PyDistribution d) validate allow_nan nm h
                     = Inr (self, h')
                 \<and> static_cat_event_size self = 1 \<and> event_size self = 0))
   \<and> (\<forall>self h'. Categorised_init cat_arg dist_arg validate allow_nan nm h = Inr (self, h')
        \<and> 2 \<le> static_cat_event_size self \<longrightarrow>
        (\<exists>t. Categorised_mean self = Inr t)
        \<and> (\<exists>t. Categorised_variance self = Inr t)
        \<and> (assertions self = [] \<longrightarrow>
             (\<exists>v. Categorised_mean self = Inr (Inr v))
             \<and> (\<exists>v. Categorised_variance self = Inr (Inr v))))"
proof -
  have 1: "Categorised_mean self = Inl ValueError \<and> Categorised_variance self = Inl ValueError"
    if "Categorised_init cat_arg dist_arg validate allow_nan nm h = Inr (self, h')"
      and "static_cat_event_size self = 1" for self h'
  proof -
    have wb: "well_built self" using that(1) by (rule init_well_built)
    from that(2) have "static_cat_event_size self \<le> 1" by simp
    with wb show ?thesis by (simp add: mean_raises variance_raises)
  qed
  have 2: "\<exists>self h'. Categorised_init (PyCategorical c) (PyDistribution d) validate allow_nan nm h
                     = Inr (self, h')
                 \<and> static_cat_event_size self = 1 \<and> event_size self = 0"
    if p: "num_classes_static c" "ndims (event_shape d) \<noteq> None" "length (logits c) = 1"
      and q: "validate \<longrightarrow> batch_shape_tensor c = batch_shape_tensor d"
  proof -
    have cv: "constant_value_event_size c = Some 1"
      using p(1,3) by (simp add: constant_value_event_size_def Categorical_event_size_def)
    have "\<exists>asserts. build_assertions validate c d = Inr asserts"
    proof (cases "build_assertions validate c d")
      case (Inl e)
      then have "validate \<and> (length (batch_shape_tensor c) \<noteq> length (batch_shape_tensor d)
          \<or> batch_shape_tensor c \<noteq> batch_shape_tensor d)"
        unfolding build_assertions_cases by blast
      with q show ?thesis by simp
    next
      case (Inr asserts)
      then show ?thesis by blast
    qed
    then obtain asserts where a: "build_assertions validate c d = Inr asserts" ..
    have rank: "\<not> ndims (event_shape d) = None" using p(2) .
    show ?thesis
      by (simp add: Categorised_init_def cv a rank Let_def)
  qed
  have 3: "(\<exists>t. Categorised_mean self = Inr t)
        \<and> (\<exists>t. Categorised_variance self = Inr t)
        \<and> (assertions self = [] \<longrightarrow>
             (\<exists>v. Categorised_mean self = Inr (Inr v))
             \<and> (\<exists>v. Categorised_variance self = Inr (Inr v)))"
    if "Categorised_init cat_arg dist_arg validate allow_nan nm h = Inr (self, h')"
      and "2 \<le> static_cat_event_size self" for self h'
  proof -
    have wb: "well_built self" using that(1) by (rule init_well_built)
    have "\<exists>t. Categorised_mean self = Inr t"
      using mean_eq[OF wb that(2)] by simp
    moreover have "\<exists>t. Categorised_variance self = Inr t"
      using variance_eq[OF wb that(2)] by simp
    moreover have "\<exists>v. Categorised_mean self = Inr (Inr v)" if "assertions self = []"
      using mean_eq[OF wb \<open>2 \<le> static_cat_event_size self\<close>] that by simp
    moreover have "\<exists>v. Categorised_variance self = Inr (Inr v)" if "assertions self = []"
      using variance_eq[OF wb \<open>2 \<le> static_cat_event_size self\<close>] that by simp
    ultimately show ?thesis by blast
  qed
  from 1 2 3 show ?thesis by blast
qed

theorem moments_need_two_classes_witness:
  "Categorised_init (PyCategorical (example_cat\<lparr>logits := [0]\<rparr>)) (PyDistribution point_mass)
       False True ''Categorised'' example_heap = Inr (one_class_self, one_class_heap)
   \<and> num_classes_static (example_cat\<lparr>logits := [0]\<rparr>)
   \<and> ndims (event_shape point_mass) \<noteq> None
   \<and> length (logits (example_cat\<lparr>logits := [0]\<rparr>)) = 1
   \<and> static_cat_event_size one_class_self = 1
   \<and> event_size one_class_self = 0
   \<and> Categorised_mean one_class_self = Inl ValueError
   \<and> Categorised_variance one_class_self = Inl ValueError
   \<and> Categorised_init (PyCategorical example_cat) (PyDistribution point_mass)
       False True ''Categorised'' example_heap = Inr (scenario_self, scenario_heap)
   \<and> 2 \<le> static_cat_event_size scenario_self
   \<and> Categorised_mean scenario_self \<noteq> Inl ValueError
   \<and> Categorised_variance scenario_self \<noteq> Inl ValueError"
  using
    moments_need_two_classes[of "PyCategorical (example_cat\<lparr>logits := [0]\<rparr>)"
      "PyDistribution point_mass" False True "''Categorised''" example_heap
      "example_cat\<lparr>logits := [0]\<rparr>" point_mass]
    moments_need_two_classes[of "PyCategorical example_cat"
      "PyDistribution point_mass" False True "''Categorised''" example_heap
      "example_cat\<lparr>logits := [0]\<rparr>" point_mass]
    one_class_init_eq[unfolded one_class_init_def] scenario_init_eq[unfolded scenario_init_def]
  by (auto simp: one_class_fields scenario_fields ndims_def example_cat_def point_mass_def)

text \<open>
  C10: a successful construction changes the store: the list \<open>_graph_parents\<close> of the
  categorical argument is extended in place by the list of the base component, every other
  list is left as it was, and the new object holds the same list. The categorical argument
  of the caller is observably changed whenever the list of the base component is non-empty.
\<close>

theorem init_extends_graph_parents_of_cat:
  assumes "Categorised_init (PyCategorical c) dist_arg validate allow_nan nm h = Inr (self, h')"
    and "as_Distribution dist_arg = Some d"
  shows "h' (graph_parents c) = h (graph_parents c) @ h (graph_parents d)
     \<and> (\<forall>a. a \<noteq> graph_parents c \<longrightarrow> h' a = h a)
     \<and> self_graph_parents self = graph_parents c
     \<and> graph_parents (cat self) = graph_parents c
     \<and> (h (graph_parents d) \<noteq> [] \<longrightarrow> h' (graph_parents c) \<noteq> h (graph_parents c))"
  using assms(1)
proof (rule init_InrD)
  fix c0 d0
  assume "PyCategorical c = PyCategorical c0" "as_Distribution dist_arg = Some d0"
    and self: "self = \<lparr> static_cat_event_size = int (length (logits c0)),
              assertions = (if validate then
                  [Assert_equal (Scalar (int (length (batch_shape_tensor c0))))
                     (Scalar (int (length (batch_shape_tensor d0)))) check_message,
                   Assert_equal (Vector (map int (batch_shape_tensor c0)))
                     (Vector (map int (batch_shape_tensor d0))) check_message]
                 else []),
              cat = c0, dist' = d0, event_size = int (length (logits c0)) - 1,
              static_event_shape = event_shape d0, static_batch_shape = batch_shape c0,
              self_dtype = dtype d0, validate_args = validate, allow_nan_stats = allow_nan,
              self_graph_parents = graph_parents c0, name = nm \<rparr>"
    and h': "h' = h(graph_parents c0 := h (graph_parents c0) @ h (graph_parents d0))"
  then have "c0 = c" "d0 = d" using assms(2) by simp_all
  with self h' show ?thesis by simp
qed

theorem init_extends_graph_parents_of_cat_witness:
  "Categorised_init (PyCategorical example_cat) (PyDistribution point_mass)
       False True ''Categorised'' example_heap = Inr (scenario_self, scenario_heap)
   \<and> as_Distribution (PyDistribution point_mass) = Some point_mass
   \<and> example_heap (graph_parents example_cat) = [''logits'']
   \<and> example_heap (graph_parents point_mass) = [''loc'']
   \<and> scenario_heap (graph_parents example_cat) = [''logits'', ''loc'']
   \<and> scenario_heap (graph_parents point_mass) = [''loc'']"
  using init_extends_graph_parents_of_cat[OF scenario_init_eq[unfolded scenario_init_def], of point_mass]
    scenario_init_eq[unfolded scenario_init_def]
  by (simp add: example_heap_def example_cat_def point_mass_def)

end
